theory Spec2Isabelle
  imports Main "HOL-Library.Log_Nat"
begin

section \<open>mcp_gcal: the tool functions of \<^verbatim>\<open>src/mcp_gcal/server.py\<close>\<close>

text \<open>
  The server module defines one helper, \<^verbatim>\<open>get_gcal_credentials\<close>, and five tool
  functions. Everything they do besides computing strings is an effect on the outside:
  the process environment, the file system, Google's OAuth and Calendar client
  libraries, the directory service reached through \<^verbatim>\<open>requests\<close>, the clock and the
  time-zone database. The outside is a record of oracles (\<open>world\<close>); the file system is
  passed through explicitly; every effect a function performs is appended to a trace that
  the function returns. Exceptions are values of the sum type \<open>exn + 'a\<close>.
\<close>

subsection \<open>Python values\<close>

text \<open>
  JSON as Python sees it after \<^verbatim>\<open>json.loads\<close>: \<^verbatim>\<open>None\<close>, \<^verbatim>\<open>bool\<close>, \<^verbatim>\<open>int\<close>,
  \<^verbatim>\<open>float\<close>, \<^verbatim>\<open>str\<close>, \<^verbatim>\<open>list\<close> and \<^verbatim>\<open>dict\<close>. A dict is the list of its items
  in insertion order (its keys are distinct); the dicts the tools return are built the same
  way. A finite float is the rational number it denotes, so that Python's \<^verbatim>\<open>==\<close> on
  floats is equality (\<^verbatim>\<open>0.0 == -0.0\<close>).
\<close>

datatype json =
    JNull
  | JBool bool
  | JInt int
  | JFloat rat
  | JStr string
  | JArr "json list"
  | JObj "(string \<times> json) list"

text \<open>
  An exception of class \<^verbatim>\<open>Exception\<close>. \<open>KeyError a\<close> is \<^verbatim>\<open>KeyError(a)\<close> for a string
  \<open>a\<close>, the one exception the module constructs itself; \<open>Raised t\<close> is any other
  exception, raised by the interpreter or a library, whose \<^verbatim>\<open>str()\<close> is \<open>t\<close>.
\<close>

datatype exn = KeyError string | Raised string

text \<open>
  \<^verbatim>\<open>repr\<close> of a \<^verbatim>\<open>str\<close>: double quotes when the text holds a single quote and no
  double quote, single quotes otherwise; the quote in use and the backslash are escaped,
  newline, carriage return and tab become a backslash and \<^verbatim>\<open>n\<close>, \<^verbatim>\<open>r\<close>, \<^verbatim>\<open>t\<close>, and any
  other ASCII control character a backslash, \<^verbatim>\<open>x\<close> and two hexadecimal digits.
  This is exact for ASCII text, which is all the module itself passes to it (the names of
  the two variables, type names). A character beyond ASCII is a sequence of bytes from 128
  up, kept as they are: Python does so for a printable character, and escapes a
  non-printable one by the Unicode character table, which is not modelled. Such a character
  can only come from outside (a path in the environment, the argument of a library's
  \<^verbatim>\<open>KeyError\<close>), and changes nothing but the spelling of a diagnostic.
\<close>

definition repr_char :: "char \<Rightarrow> char \<Rightarrow> string" where
  "repr_char q c =
     (if c = q \<or> c = CHR 0x5C then [CHR 0x5C, c]
      else if c = CHR 0x0A then [CHR 0x5C, CHR ''n'']
      else if c = CHR 0x0D then [CHR 0x5C, CHR ''r'']
      else if c = CHR 0x09 then [CHR 0x5C, CHR ''t'']
      else if (of_char c :: nat) < 32 \<or> (of_char c :: nat) = 127
      then [CHR 0x5C, CHR ''x'', ''0123456789abcdef'' ! (of_char c div 16),
            ''0123456789abcdef'' ! (of_char c mod 16)]
      else [c])"

definition py_repr :: "string \<Rightarrow> string" where
  "py_repr t =
     (let q = (if CHR 0x27 \<in> set t \<and> CHR 0x22 \<notin> set t then CHR 0x22 else CHR 0x27)
      in [q] @ concat (map (repr_char q) t) @ [q])"

text \<open>\<^verbatim>\<open>str(error)\<close>, as an f-string formats it: a \<^verbatim>\<open>KeyError\<close> shows the \<^verbatim>\<open>repr\<close> of its argument.\<close>

fun str_exn :: "exn \<Rightarrow> string" where
  "str_exn (KeyError a) = py_repr a"
| "str_exn (Raised t) = t"

text \<open>\<^verbatim>\<open>str\<close> of an \<^verbatim>\<open>int\<close>, in decimal.\<close>

fun str_nat :: "nat \<Rightarrow> string" where
  "str_nat n =
     (if n < 10 then [''0123456789'' ! n]
      else str_nat (n div 10) @ [''0123456789'' ! (n mod 10)])"

definition str_int :: "int \<Rightarrow> string" where
  "str_int i = (if i < 0 then CHR ''-'' # str_nat (nat (- i)) else str_nat (nat i))"

text \<open>The name of a value's Python type, as error messages print it.\<close>

fun type_name :: "json \<Rightarrow> string" where
  "type_name JNull = ''NoneType''"
| "type_name (JBool _) = ''bool''"
| "type_name (JInt _) = ''int''"
| "type_name (JFloat _) = ''float''"
| "type_name (JStr _) = ''str''"
| "type_name (JArr _) = ''list''"
| "type_name (JObj _) = ''dict''"

text \<open>Truth value of a JSON value (\<^verbatim>\<open>if data\<close>).\<close>

fun truthy :: "json \<Rightarrow> bool" where
  "truthy JNull = False"
| "truthy (JBool b) = b"
| "truthy (JInt i) = (i \<noteq> 0)"
| "truthy (JFloat r) = (r \<noteq> 0)"
| "truthy (JStr t) = (t \<noteq> [])"
| "truthy (JArr xs) = (xs \<noteq> [])"
| "truthy (JObj kvs) = (kvs \<noteq> [])"

text \<open>\<^verbatim>\<open>len(x)\<close>: a \<^verbatim>\<open>TypeError\<close> on a value without a length.\<close>

fun py_len :: "json \<Rightarrow> exn + nat" where
  "py_len (JStr t) = Inr (length t)"
| "py_len (JArr xs) = Inr (length xs)"
| "py_len (JObj kvs) = Inr (length kvs)"
| "py_len v = Inl (Raised (''object of type '' @ py_repr (type_name v) @ '' has no len()''))"

text \<open>
  \<^verbatim>\<open>x[0]\<close>, reached in this module only where \<^verbatim>\<open>len(x) > 0\<close>: the first element of a
  list, the first character of a string, and \<^verbatim>\<open>KeyError(0)\<close> on a dict, whose keys are all
  strings (\<^verbatim>\<open>str(KeyError(0))\<close> is \<^verbatim>\<open>0\<close>).
\<close>

fun py_first :: "json \<Rightarrow> exn + json" where
  "py_first (JArr (x # xs)) = Inr x"
| "py_first (JArr []) = Inl (Raised ''list index out of range'')"
| "py_first (JStr (c # cs)) = Inr (JStr [c])"
| "py_first (JStr []) = Inl (Raised ''string index out of range'')"
| "py_first (JObj kvs) = Inl (Raised ''0'')"
| "py_first v = Inl (Raised (py_repr (type_name v) @ '' object is not subscriptable''))"

text \<open>\<^verbatim>\<open>x.get(key, default)\<close>: only a dict has the method.\<close>

fun py_get :: "json \<Rightarrow> string \<Rightarrow> json \<Rightarrow> exn + json" where
  "py_get (JObj kvs) k d = Inr (case map_of kvs k of Some v \<Rightarrow> v | None \<Rightarrow> d)"
| "py_get v k d =
     Inl (Raised (py_repr (type_name v) @ '' object has no attribute '' @ py_repr ''get''))"

subsection \<open>The outside world\<close>

type_synonym path = string

text \<open>
  A \<^verbatim>\<open>google.oauth2.credentials.Credentials\<close> object, by what the module reads of it:
  the properties \<^verbatim>\<open>valid\<close> and \<^verbatim>\<open>expired\<close>, the attribute \<^verbatim>\<open>refresh_token\<close> and the
  text \<^verbatim>\<open>to_json()\<close> returns.
\<close>

record credentials =
  valid :: bool
  expired :: bool
  refresh_token :: "string option"
  to_json :: string

text \<open>The keyword arguments of \<^verbatim>\<open>service.events().list(...)\<close>.\<close>

record events_list_args =
  calendarId :: string
  timeMin :: string
  maxResults :: nat
  singleEvents :: bool
  orderBy :: string

text \<open>A request to the Calendar API, sent by \<^verbatim>\<open>.execute()\<close>.\<close>

datatype api_request =
    EventsList events_list_args
  | FreebusyQuery json
  | CalendarsGet string

text \<open>A \<^verbatim>\<open>requests.Response\<close>: its status code, and what \<^verbatim>\<open>.json()\<close> returns or raises.\<close>

record response =
  status_code :: int
  response_json :: "exn + json"

text \<open>
  What the module cannot decide by itself:
  \<^item> \<open>environ\<close>: \<^verbatim>\<open>os.environ\<close>;
  \<^item> \<open>from_authorized_user_info\<close>: the credentials parsed from the text of a token file,
    or the exception \<^verbatim>\<open>Credentials.from_authorized_user_file\<close> raises on it;
  \<^item> \<open>refresh\<close>: the outcome of \<^verbatim>\<open>creds.refresh(Request())\<close>, the credentials as updated;
  \<^item> \<open>from_client_config\<close>: the exception \<^verbatim>\<open>InstalledAppFlow.from_client_secrets_file\<close>
    raises on the text of a client-secret file, if any;
  \<^item> \<open>run_local_server\<close>: the outcome of \<^verbatim>\<open>flow.run_local_server(port=0)\<close> for the flow
    built from that text;
  \<^item> \<open>open_w\<close>: the exception \<^verbatim>\<open>open(path, "w")\<close> raises, if any;
  \<^item> \<open>build\<close>: the exception \<^verbatim>\<open>build("calendar", "v3", credentials=creds)\<close> raises, if any;
  \<^item> \<open>execute\<close>: the decoded answer of the Calendar API to a request, or the exception;
  \<^item> \<open>requests_get\<close>: the answer of \<^verbatim>\<open>requests.get(url, headers=headers)\<close>, or the exception;
  \<^item> \<open>now_isoformat\<close>: the text \<^verbatim>\<open>datetime.datetime.now().isoformat()\<close>, the wall-clock
    time of the host's own zone, without an offset;
  \<^item> \<open>utcoffset\<close>: for a zone key, the UTC offset in seconds at the current instant,
    \<^verbatim>\<open>dt.astimezone(zoneinfo.ZoneInfo(key)).utcoffset()\<close>, or the exception raised.
\<close>

record world =
  environ :: "string \<rightharpoonup> string"
  from_authorized_user_info :: "string \<Rightarrow> exn + credentials"
  refresh :: "credentials \<Rightarrow> exn + credentials"
  from_client_config :: "string \<rightharpoonup> exn"
  run_local_server :: "string \<Rightarrow> exn + credentials"
  open_w :: "path \<rightharpoonup> exn"
  build :: "credentials \<rightharpoonup> exn"
  execute :: "credentials \<Rightarrow> api_request \<Rightarrow> exn + json"
  requests_get :: "string \<Rightarrow> (string \<times> string) list \<Rightarrow> exn + response"
  now_isoformat :: string
  utcoffset :: "string \<Rightarrow> exn + int"

text \<open>The file system: the text of each existing file.\<close>

type_synonym files = "path \<rightharpoonup> string"

text \<open>The effects a call performs, in order.\<close>

datatype event =
    FileExists path
  | FileRead path
  | FileWrite path string
  | TokenRefresh
  | InteractiveFlow
  | ServiceBuild
  | ApiCall api_request
  | HttpGet string
  | Print string

subsection \<open>\<^verbatim>\<open>get_gcal_credentials\<close>\<close>

text \<open>
  Lines 36-44: both paths come from the environment; a missing variable raises
  \<^verbatim>\<open>KeyError(f"Can't find enviroment variable {error}")\<close>, where \<^verbatim>\<open>error\<close> is the
  \<^verbatim>\<open>KeyError\<close> of the failed lookup.
\<close>

definition env_paths :: "world \<Rightarrow> exn + (path \<times> path)" where
  "env_paths w =
     (case environ w ''GCAL_TOKEN_PATH'' of
        None \<Rightarrow>
          Inl (KeyError (''Can't find enviroment variable '' @ str_exn (KeyError ''GCAL_TOKEN_PATH'')))
      | Some token_path \<Rightarrow>
          (case environ w ''GCAL_CREDENTIALS_PATH'' of
             None \<Rightarrow>
               Inl (KeyError (''Can't find enviroment variable ''
                      @ str_exn (KeyError ''GCAL_CREDENTIALS_PATH'')))
           | Some credentials_path \<Rightarrow> Inr (token_path, credentials_path)))"

text \<open>
  Lines 49-50: \<^verbatim>\<open>creds\<close> stays \<^verbatim>\<open>None\<close> unless the token file exists; then it is parsed.
\<close>

definition load_token :: "world \<Rightarrow> files \<Rightarrow> path \<Rightarrow> (exn + credentials option) \<times> event list" where
  "load_token w fs token_path =
     (case fs token_path of
        None \<Rightarrow> (Inr None, [FileExists token_path])
      | Some text \<Rightarrow>
          (case from_authorized_user_info w text of
             Inl e \<Rightarrow> (Inl e, [FileExists token_path, FileRead token_path])
           | Inr c \<Rightarrow> (Inr (Some c), [FileExists token_path, FileRead token_path])))"

text \<open>
  Lines 58-61: the flow is built from the client-secret file (\<^verbatim>\<open>FileNotFoundError\<close> when
  there is none), then the local server runs.
\<close>

definition interactive_flow :: "world \<Rightarrow> files \<Rightarrow> path \<Rightarrow> (exn + credentials) \<times> event list" where
  "interactive_flow w fs credentials_path =
     (case fs credentials_path of
        None \<Rightarrow>
          (Inl (Raised (''[Errno 2] No such file or directory: '' @ py_repr credentials_path)),
           [FileRead credentials_path])
      | Some text \<Rightarrow>
          (case from_client_config w text of
             Some e \<Rightarrow> (Inl e, [FileRead credentials_path])
           | None \<Rightarrow> (run_local_server w text, [FileRead credentials_path, InteractiveFlow])))"

text \<open>
  Lines 52-61. A \<^verbatim>\<open>Credentials\<close> object is always true, so \<^verbatim>\<open>not creds\<close> holds only of
  \<^verbatim>\<open>None\<close>; \<^verbatim>\<open>creds.refresh_token\<close> is true when it is a non-empty string. The refresh is
  not inside any \<^verbatim>\<open>try\<close>: what it raises leaves the function.
\<close>

definition login ::
  "world \<Rightarrow> files \<Rightarrow> path \<Rightarrow> credentials option \<Rightarrow> (exn + credentials) \<times> event list" where
  "login w fs credentials_path creds =
     (case creds of
        None \<Rightarrow> interactive_flow w fs credentials_path
      | Some c \<Rightarrow>
          if valid c then (Inr c, [])
          else if expired c \<and> refresh_token c \<noteq> None \<and> refresh_token c \<noteq> Some []
          then (refresh w c, [TokenRefresh])
          else interactive_flow w fs credentials_path)"

text \<open>
  Lines 63-64: \<^verbatim>\<open>with open("token.json", "w") as token: token.write(creds.to_json())\<close>.
  The file name is the literal \<^verbatim>\<open>"token.json"\<close>.
\<close>

definition save_token ::
  "world \<Rightarrow> files \<Rightarrow> credentials \<Rightarrow> (exn + credentials) \<times> files \<times> event list" where
  "save_token w fs c =
     (case open_w w ''token.json'' of
        Some e \<Rightarrow> (Inl e, fs, [])
      | None \<Rightarrow> (Inr c, fs(''token.json'' \<mapsto> to_json c), [FileWrite ''token.json'' (to_json c)]))"

text \<open>The whole function: result, file system afterwards, effects performed.\<close>

definition get_gcal_credentials ::
  "world \<Rightarrow> files \<Rightarrow> (exn + credentials) \<times> files \<times> event list" where
  "get_gcal_credentials w fs =
     (case env_paths w of
        Inl e \<Rightarrow> (Inl e, fs, [])
      | Inr (token_path, credentials_path) \<Rightarrow>
          (case load_token w fs token_path of
             (Inl e, t1) \<Rightarrow> (Inl e, fs, t1)
           | (Inr creds, t1) \<Rightarrow>
               (case login w fs credentials_path creds of
                  (Inl e, t2) \<Rightarrow> (Inl e, fs, t1 @ t2)
                | (Inr c, t2) \<Rightarrow>
                    (case save_token w fs c of
                       (r, fs', t3) \<Rightarrow> (r, fs', t1 @ t2 @ t3)))))"

subsection \<open>Floats\<close>

text \<open>
  Python's \<^verbatim>\<open>float\<close> is IEEE 754 binary64, and each operation returns the exact result
  rounded to the nearest float, ties to even. \<open>binary64 x\<close> is that float for a rational
  \<open>x\<close> in the normal range: with \<open>2 ^ e \<le> |x| < 2 ^ (e + 1)\<close>, the nearest multiple of
  \<open>2 ^ (e - 52)\<close>.
\<close>

definition scale2 :: "rat \<Rightarrow> int \<Rightarrow> rat" where
  "scale2 x e = (if 0 \<le> e then x * 2 ^ nat e else x / 2 ^ nat (- e))"

definition floor_log2 :: "rat \<Rightarrow> int" where
  "floor_log2 x =
     (let k = bitlen (fst (quotient_of x)) - bitlen (snd (quotient_of x))
      in if 1 \<le> scale2 x (- k) then k else k - 1)"

definition round_half_even :: "rat \<Rightarrow> int" where
  "round_half_even x =
     (let f = \<lfloor>x\<rfloor>; d = x - of_int f
      in if d < 1 / 2 then f else if 1 / 2 < d then f + 1 else if even f then f else f + 1)"

definition binary64 :: "rat \<Rightarrow> rat" where
  "binary64 x =
     (if x = 0 then 0
      else let e = floor_log2 \<bar>x\<bar> - 52
           in sgn x * scale2 (of_int (round_half_even (scale2 \<bar>x\<bar> (- e)))) e)"

subsection \<open>The tools\<close>

text \<open>
  Lines 79-89. \<^verbatim>\<open>dt\<close> is read once, so both offsets are taken at the same instant. The
  difference of the two \<^verbatim>\<open>timedelta\<close>s is exact; \<^verbatim>\<open>total_seconds()\<close> converts it to a
  float, and the division by 3600 is a float division.
\<close>

definition get_timezone_difference :: "world \<Rightarrow> string \<Rightarrow> string \<Rightarrow> json" where
  "get_timezone_difference w tz1 tz2 =
     (case utcoffset w tz1 of
        Inl error \<Rightarrow>
          JObj [(''result'', JStr (''An error occurred: '' @ str_exn error)), (''delta'', JNull)]
      | Inr tz1_utc \<Rightarrow>
          (case utcoffset w tz2 of
             Inl error \<Rightarrow>
               JObj [(''result'', JStr (''An error occurred: '' @ str_exn error)), (''delta'', JNull)]
           | Inr tz2_utc \<Rightarrow>
               JObj [(''result'', JStr ''success''),
                     (''delta'', JFloat (binary64 (binary64 (of_int (tz2_utc - tz1_utc)) / 3600)))]))"

text \<open>
  \<^verbatim>\<open>urllib.parse.quote(name)\<close>, with \<^verbatim>\<open>name\<close> given by its UTF-8 bytes: letters, digits
  and \<^verbatim>\<open>_.-~/\<close> stay, every other byte becomes \<^verbatim>\<open>%XX\<close>.
\<close>

definition quote :: "string \<Rightarrow> string" where
  "quote name =
     concat (map (\<lambda>c.
       if c \<in> set ''ABCDEFGHIJKLMNOPQRSTUVWXYZabcdefghijklmnopqrstuvwxyz0123456789_.-~/''
       then [c]
       else [CHR ''%'', ''0123456789ABCDEF'' ! (of_char c div 16),
             ''0123456789ABCDEF'' ! (of_char c mod 16)]) name)"

text \<open>Lines 117-127, inside the \<^verbatim>\<open>try\<close>: what is returned, or the exception raised.\<close>

definition lookup_body :: "string \<Rightarrow> response \<Rightarrow> exn + json" where
  "lookup_body name resp =
     (if status_code resp = 200 then
        (case response_json resp of
           Inl e \<Rightarrow> Inl e
         | Inr data \<Rightarrow>
             if \<not> truthy data then Inr (JStr (''No results found for '' @ [CHR 0x27] @ name @ [CHR 0x27]))
             else (case py_len data of
                     Inl e \<Rightarrow> Inl e
                   | Inr n \<Rightarrow>
                       if 0 < n then
                         (case py_first data of
                            Inl e \<Rightarrow> Inl e
                          | Inr x \<Rightarrow> py_get x ''email'' (JStr ''Email not found in response''))
                       else Inr (JStr (''No results found for '' @ [CHR 0x27] @ name @ [CHR 0x27]))))
      else Inr (JStr (''Error: API returned status code '' @ str_int (status_code resp))))"

text \<open>Lines 104-129: the value returned and the effects.\<close>

definition lookup_registry_email :: "world \<Rightarrow> string \<Rightarrow> json \<times> event list" where
  "lookup_registry_email w name =
     (let url = ''https://registry.sqprod.co/api/v2/users/search?query='' @ quote name;
          headers = [(''accept'', ''application/json'')]
      in case requests_get w url headers of
           Inl e \<Rightarrow> (JStr (''Error making request: '' @ str_exn e), [HttpGet url])
         | Inr resp \<Rightarrow>
             (case lookup_body name resp of
                Inl e \<Rightarrow> (JStr (''Error making request: '' @ str_exn e), [HttpGet url])
              | Inr v \<Rightarrow> (v, [HttpGet url])))"

text \<open>
  Lines 152-162: the list request. \<^verbatim>\<open>timeMin\<close> is the local wall-clock text with the
  letter \<^verbatim>\<open>Z\<close> appended; which instant the Calendar API reads from it is not modelled.
\<close>

definition events_request :: "world \<Rightarrow> api_request" where
  "events_request w =
     EventsList \<lparr>calendarId = ''primary'', timeMin = now_isoformat w @ ''Z'', maxResults = 50,
                 singleEvents = True, orderBy = ''startTime''\<rparr>"

text \<open>
  Lines 142-170. \<^verbatim>\<open>events\<close> is assigned by the last statement of the second \<^verbatim>\<open>try\<close>,
  so both handlers return the empty list it was initialised with.
\<close>

definition retrieve_calendar_events :: "world \<Rightarrow> files \<Rightarrow> string \<Rightarrow> json \<times> files \<times> event list" where
  "retrieve_calendar_events w fs id_arg =
     (case get_gcal_credentials w fs of
        (Inl error, fs', t) \<Rightarrow>
          (JObj [(''result'', JStr (''An error occurred: '' @ str_exn error)), (''events'', JArr [])],
           fs', t)
      | (Inr creds, fs', t) \<Rightarrow>
          (case build w creds of
             Some error \<Rightarrow>
               (JObj [(''result'', JStr (''An error occurred: '' @ str_exn error)),
                      (''events'', JArr [])],
                fs', t @ [ServiceBuild])
           | None \<Rightarrow>
               (let t' = t @ [ServiceBuild, Print ''Getting the upcoming 10 events'',
                              ApiCall (events_request w)]
                in case execute w creds (events_request w) of
                     Inl error \<Rightarrow>
                       (JObj [(''result'', JStr (''An error occurred: '' @ str_exn error)),
                              (''events'', JArr [])],
                        fs', t')
                   | Inr events_result \<Rightarrow>
                       (case py_get events_result ''items'' (JArr []) of
                          Inl error \<Rightarrow>
                            (JObj [(''result'', JStr (''An error occurred: '' @ str_exn error)),
                                   (''events'', JArr [])],
                             fs', t')
                        | Inr events \<Rightarrow>
                            (JObj [(''result'', JStr ''success''), (''events'', events)], fs', t')))))"

text \<open>Lines 195-219. The query dict is built from the arguments as they are.\<close>

definition freebusy_request :: "string \<Rightarrow> string \<Rightarrow> string \<Rightarrow> string list \<Rightarrow> api_request" where
  "freebusy_request time_min time_max timezone ids =
     FreebusyQuery (JObj [(''timeMin'', JStr time_min), (''timeMax'', JStr time_max),
                          (''timeZone'', JStr timezone), (''groupExpansionMax'', JInt 2),
                          (''calendarExpansionMax'', JInt 2),
                          (''items'', JArr (map (\<lambda>x. JObj [(''id'', JStr x)]) ids))])"

definition retrieve_calendar_free_busy_slots ::
  "world \<Rightarrow> files \<Rightarrow> string \<Rightarrow> string \<Rightarrow> string \<Rightarrow> string list \<Rightarrow> json \<times> files \<times> event list" where
  "retrieve_calendar_free_busy_slots w fs time_min time_max timezone ids =
     (case get_gcal_credentials w fs of
        (Inl error, fs', t) \<Rightarrow>
          (JObj [(''result'', JStr (''An error occurred: '' @ str_exn error)), (''response'', JObj [])],
           fs', t)
      | (Inr creds, fs', t) \<Rightarrow>
          (case build w creds of
             Some error \<Rightarrow>
               (JObj [(''result'', JStr (''An error occurred: '' @ str_exn error)),
                      (''response'', JObj [])],
                fs', t @ [ServiceBuild])
           | None \<Rightarrow>
               (let query = freebusy_request time_min time_max timezone ids;
                    t' = t @ [ServiceBuild, ApiCall query]
                in case execute w creds query of
                     Inl error \<Rightarrow>
                       (JObj [(''result'', JStr (''An error occurred: '' @ str_exn error)),
                              (''response'', JObj [])],
                        fs', t')
                   | Inr response \<Rightarrow>
                       (JObj [(''result'', JStr ''success''), (''response'', response)], fs', t'))))"

text \<open>Lines 233-247.\<close>

definition retrieve_timezone :: "world \<Rightarrow> files \<Rightarrow> string \<Rightarrow> json \<times> files \<times> event list" where
  "retrieve_timezone w fs calendar_id =
     (case get_gcal_credentials w fs of
        (Inl error, fs', t) \<Rightarrow>
          (JObj [(''result'', JStr (''An error occurred: '' @ str_exn error)), (''response'', JObj [])],
           fs', t)
      | (Inr creds, fs', t) \<Rightarrow>
          (case build w creds of
             Some error \<Rightarrow>
               (JObj [(''result'', JStr (''An error occurred: '' @ str_exn error)),
                      (''response'', JObj [])],
                fs', t @ [ServiceBuild])
           | None \<Rightarrow>
               (let t' = t @ [ServiceBuild, ApiCall (CalendarsGet calendar_id)]
                in case execute w creds (CalendarsGet calendar_id) of
                     Inl error \<Rightarrow>
                       (JObj [(''result'', JStr (''An error occurred: '' @ str_exn error)),
                              (''response'', JObj [])],
                        fs', t')
                   | Inr response \<Rightarrow>
                       (JObj [(''result'', JStr ''success''), (''response'', response)], fs', t'))))"

subsection \<open>Reading results and traces\<close>

text \<open>The value of a key of a returned dict.\<close>

definition field :: "string \<Rightarrow> json \<Rightarrow> json option" where
  "field k j = (case j of JObj kvs \<Rightarrow> map_of kvs k | _ \<Rightarrow> None)"

text \<open>
  The two states of a tool's result. The dicts of this module have the key \<^verbatim>\<open>result\<close>,
  which is \<^verbatim>\<open>"success"\<close> or else the diagnostic, and one payload key (\<^verbatim>\<open>events\<close>,
  \<^verbatim>\<open>response\<close>, \<^verbatim>\<open>delta\<close>). Success: \<^verbatim>\<open>result\<close> is \<^verbatim>\<open>"success"\<close>, so there is no
  diagnostic; \<open>SuccessState k p\<close> keeps the payload key \<open>k\<close> and the payload \<open>p\<close>, so that
  a statement can say which key it must be and which domain result it must hold. Error:
  \<^verbatim>\<open>result\<close> is a non-empty diagnostic and the payload is empty (\<^verbatim>\<open>[]\<close>, \<^verbatim>\<open>{}\<close> or
  \<^verbatim>\<open>None\<close>); \<open>ErrorState k m\<close> keeps the payload key and the diagnostic. Anything else is
  in neither state.
\<close>

datatype envelope_state = SuccessState string json | ErrorState string string

fun empty_payload :: "json \<Rightarrow> bool" where
  "empty_payload JNull = True"
| "empty_payload (JArr []) = True"
| "empty_payload (JObj []) = True"
| "empty_payload _ = False"

definition envelope_state :: "json \<Rightarrow> envelope_state option" where
  "envelope_state j =
     (case j of
        JObj [(k, JStr r), (k', payload)] \<Rightarrow>
          if k = ''result'' \<and> k' \<noteq> ''result'' then
            (if r = ''success'' then Some (SuccessState k' payload)
             else if r \<noteq> [] \<and> empty_payload payload then Some (ErrorState k' r)
             else None)
          else None
      | _ \<Rightarrow> None)"

text \<open>
  The failures of the directory lookup are the two strings that start with \<^verbatim>\<open>Error\<close>
  (lines 127 and 129).
\<close>

definition is_error_outcome :: "json \<Rightarrow> bool" where
  "is_error_outcome j = (case j of JStr t \<Rightarrow> take 5 t = ''Error'' | _ \<Rightarrow> False)"

text \<open>
  An effect that reaches an upstream service: building the Calendar client, a Calendar API
  request, a request to the directory service.
\<close>

fun contacts_upstream :: "event \<Rightarrow> bool" where
  "contacts_upstream ServiceBuild = True"
| "contacts_upstream (ApiCall _) = True"
| "contacts_upstream (HttpGet _) = True"
| "contacts_upstream _ = False"

text \<open>The Calendar API requests of a trace, in order.\<close>

fun api_calls :: "event list \<Rightarrow> api_request list" where
  "api_calls [] = []"
| "api_calls (ApiCall r # t) = r # api_calls t"
| "api_calls (_ # t) = api_calls t"

subsection \<open>Example worlds\<close>

text \<open>
  A machine with both variables set, a calendar of twelve upcoming instances, a directory
  with two records for every query, and three time zones. The upstream list call returns
  at most \<^verbatim>\<open>maxResults\<close> items.
\<close>

definition token_file :: path where
  "token_file = ''/etc/mcp_gcal/gcal_token.json''"

definition secret_file :: path where
  "secret_file = ''/etc/mcp_gcal/credentials.json''"

definition good_creds :: credentials where
  "good_creds = \<lparr>valid = True, expired = False, refresh_token = Some ''r-1'', to_json = ''good''\<rparr>"

definition stale_creds :: credentials where
  "stale_creds = \<lparr>valid = False, expired = True, refresh_token = Some ''r-1'', to_json = ''stale''\<rparr>"

definition fresh_creds :: credentials where
  "fresh_creds = \<lparr>valid = True, expired = False, refresh_token = Some ''r-1'', to_json = ''fresh''\<rparr>"

definition minted_creds :: credentials where
  "minted_creds = \<lparr>valid = True, expired = False, refresh_token = Some ''r-2'', to_json = ''minted''\<rparr>"

definition twelve_events :: "json list" where
  "twelve_events =
     map (\<lambda>t. JObj [(''summary'', JStr t)])
       [''standup 1'', ''standup 2'', ''standup 3'', ''review'', ''lunch'', ''planning'',
        ''one-to-one'', ''demo'', ''retro'', ''offsite'', ''dentist'', ''flight'']"

definition two_records :: json where
  "two_records =
     JArr [JObj [(''name'', JStr ''Ana Diaz''), (''email'', JStr ''ana@example.com'')],
           JObj [(''name'', JStr ''Ana Ruiz''), (''email'', JStr ''aruiz@example.com'')]]"

definition demo_world :: world where
  "demo_world =
     \<lparr>environ = [''GCAL_TOKEN_PATH'' \<mapsto> token_file, ''GCAL_CREDENTIALS_PATH'' \<mapsto> secret_file],
      from_authorized_user_info =
        (\<lambda>t. if t = ''good'' then Inr good_creds
             else if t = ''stale'' then Inr stale_creds
             else Inl (Raised ''Expecting value: line 1 column 1 (char 0)'')),
      refresh = (\<lambda>c. Inr fresh_creds),
      from_client_config = Map.empty,
      run_local_server = (\<lambda>t. Inr minted_creds),
      open_w = Map.empty,
      build = Map.empty,
      execute =
        (\<lambda>c r. case r of
                  EventsList a \<Rightarrow> Inr (JObj [(''items'', JArr (take (maxResults a) twelve_events))])
                | FreebusyQuery q \<Rightarrow> Inr (JObj [(''calendars'', JObj [])])
                | CalendarsGet i \<Rightarrow> Inr (JObj [(''timeZone'', JStr ''Europe/Madrid'')])),
      requests_get = (\<lambda>url headers. Inr \<lparr>status_code = 200, response_json = Inr two_records\<rparr>),
      now_isoformat = ''2024-05-01T10:00:00.000000'',
      utcoffset =
        (\<lambda>k. if k = ''UTC'' then Inr 0
             else if k = ''Asia/Kolkata'' then Inr 19800
             else if k = ''America/New_York'' then Inr (- 14400)
             else Inl (KeyError (''No time zone found with key '' @ k)))\<rparr>"

text \<open>The files of that machine: the client secret, and a token file with the given text.\<close>

definition demo_files :: "string \<Rightarrow> files" where
  "demo_files t = [token_file \<mapsto> t, secret_file \<mapsto> ''client-secret'']"

text \<open>The same machine with \<^verbatim>\<open>GCAL_CREDENTIALS_PATH\<close> unset.\<close>

definition unset_world :: world where
  "unset_world = demo_world\<lparr>environ := [''GCAL_TOKEN_PATH'' \<mapsto> token_file]\<rparr>"

text \<open>The same machine when the identity provider rejects the refresh token.\<close>

definition revoked_world :: world where
  "revoked_world =
     demo_world\<lparr>refresh := (\<lambda>c. Inl (Raised ''invalid_grant: Token has been expired or revoked.''))\<rparr>"

text \<open>
  Three answers of the directory service: no record, status 500, and a record whose
  email field holds the text of a failure.
\<close>

definition empty_directory :: world where
  "empty_directory =
     demo_world\<lparr>requests_get := (\<lambda>url headers. Inr \<lparr>status_code = 200, response_json = Inr (JArr [])\<rparr>)\<rparr>"

definition failing_directory :: world where
  "failing_directory =
     demo_world\<lparr>requests_get :=
       (\<lambda>url headers. Inr \<lparr>status_code = 500, response_json = Inl (Raised ''Expecting value'')\<rparr>)\<rparr>"

definition odd_directory :: world where
  "odd_directory =
     demo_world\<lparr>requests_get :=
       (\<lambda>url headers. Inr \<lparr>status_code = 200,
          response_json = Inr (JArr [JObj [(''email'', JStr ''Error: API returned status code 500'')]])\<rparr>)\<rparr>"

section \<open>Properties\<close>

subsection \<open>Credential acquisition never reaches the upstream services\<close>

lemma load_token_quiet: "filter contacts_upstream (snd (load_token w fs p)) = []"
  by (simp add: load_token_def split: option.split sum.split)

lemma interactive_flow_quiet: "filter contacts_upstream (snd (interactive_flow w fs p)) = []"
  by (simp add: interactive_flow_def split: option.split)

lemma login_quiet: "filter contacts_upstream (snd (login w fs p c)) = []"
  by (simp add: login_def interactive_flow_quiet split: option.split)

lemma save_token_quiet: "filter contacts_upstream (snd (snd (save_token w fs c))) = []"
  by (simp add: save_token_def split: option.split)

lemma get_gcal_credentials_quiet:
  "filter contacts_upstream (snd (snd (get_gcal_credentials w fs))) = []"
proof (cases "env_paths w")
  case (Inl e)
  then show ?thesis by (simp add: get_gcal_credentials_def)
next
  case (Inr ps)
  obtain tp cp where ps: "ps = (tp, cp)" by (cases ps)
  obtain r1 t1 where l: "load_token w fs tp = (r1, t1)" by (cases "load_token w fs tp")
  have q1: "filter contacts_upstream t1 = []" using load_token_quiet [of w fs tp] l by simp
  show ?thesis
  proof (cases r1)
    case (Inl e)
    then show ?thesis using Inr ps l q1 by (simp add: get_gcal_credentials_def)
  next
    case (Inr co)
    note r1 = this
    obtain r2 t2 where g: "login w fs cp co = (r2, t2)" by (cases "login w fs cp co")
    have q2: "filter contacts_upstream t2 = []" using login_quiet [of w fs cp co] g by simp
    show ?thesis
    proof (cases r2)
      case (Inl e)
      then show ?thesis using \<open>env_paths w = Inr ps\<close> ps l q1 r1 g q2
        by (simp add: get_gcal_credentials_def)
    next
      case (Inr c)
      obtain r3 fs3 t3 where sv: "save_token w fs c = (r3, fs3, t3)"
        by (cases "save_token w fs c")
      have q3: "filter contacts_upstream t3 = []" using save_token_quiet [of w fs c] sv by simp
      show ?thesis using \<open>env_paths w = Inr ps\<close> ps l q1 r1 g q2 Inr sv q3
        by (simp add: get_gcal_credentials_def)
    qed
  qed
qed

subsection \<open>Missing environment variables\<close>

text \<open>
  Claim C8. If \<^verbatim>\<open>GCAL_TOKEN_PATH\<close> or \<^verbatim>\<open>GCAL_CREDENTIALS_PATH\<close> is not in the
  environment, \<^verbatim>\<open>get_gcal_credentials\<close> raises the \<^verbatim>\<open>KeyError\<close> that names the first
  missing variable, with no effect at all: the trace is empty (no file looked for, read or
  written, no refresh, no interactive flow) and the file system is as it was.
\<close>

theorem missing_variable_fails_first:
  assumes "environ w ''GCAL_TOKEN_PATH'' = None \<or> environ w ''GCAL_CREDENTIALS_PATH'' = None"
  shows "get_gcal_credentials w fs =
           (Inl (KeyError (''Can't find enviroment variable ''
                   @ py_repr (if environ w ''GCAL_TOKEN_PATH'' = None then ''GCAL_TOKEN_PATH''
                              else ''GCAL_CREDENTIALS_PATH''))),
            fs, [])"
  using assms by (auto simp: get_gcal_credentials_def env_paths_def split: option.splits)

theorem missing_variable_fails_first_witness:
  "environ unset_world ''GCAL_CREDENTIALS_PATH'' = None \<and>
   get_gcal_credentials unset_world (demo_files ''good'') =
     (Inl (KeyError (''Can't find enviroment variable '' @ [CHR 0x27] @ ''GCAL_CREDENTIALS_PATH'' @ [CHR 0x27])),
      demo_files ''good'', [])"
proof -
  have h: "environ unset_world ''GCAL_TOKEN_PATH'' = None \<or> environ unset_world ''GCAL_CREDENTIALS_PATH'' = None"
    by (simp add: unset_world_def demo_world_def)
  show ?thesis
    using missing_variable_fails_first [OF h, of "demo_files ''good''"]
    by (simp add: unset_world_def demo_world_def py_repr_def repr_char_def Let_def)
qed

subsection \<open>Failed acquisition\<close>

text \<open>
  Claim C3. When \<^verbatim>\<open>get_gcal_credentials\<close> raises, each of the three tools that call it
  (upcoming events, free/busy, calendar timezone) returns the error dict built from the
  exception, with an empty payload, and its trace holds no effect that reaches an upstream
  service: the Calendar client is not built and no request is sent.
\<close>

theorem failed_acquisition_no_upstream:
  assumes "fst (get_gcal_credentials w fs) = Inl error"
  shows "fst (retrieve_calendar_events w fs id_arg) =
           JObj [(''result'', JStr (''An error occurred: '' @ str_exn error)), (''events'', JArr [])]
       \<and> fst (retrieve_calendar_free_busy_slots w fs time_min time_max timezone ids) =
           JObj [(''result'', JStr (''An error occurred: '' @ str_exn error)), (''response'', JObj [])]
       \<and> fst (retrieve_timezone w fs calendar_id) =
           JObj [(''result'', JStr (''An error occurred: '' @ str_exn error)), (''response'', JObj [])]
       \<and> filter contacts_upstream (snd (snd (retrieve_calendar_events w fs id_arg))) = []
       \<and> filter contacts_upstream
           (snd (snd (retrieve_calendar_free_busy_slots w fs time_min time_max timezone ids))) = []
       \<and> filter contacts_upstream (snd (snd (retrieve_timezone w fs calendar_id))) = []"
proof -
  obtain fs' t where g: "get_gcal_credentials w fs = (Inl error, fs', t)"
    using assms by (cases "get_gcal_credentials w fs") auto
  have q: "filter contacts_upstream t = []"
    using get_gcal_credentials_quiet [of w fs] g by simp
  show ?thesis
    using g q
    by (simp add: retrieve_calendar_events_def retrieve_calendar_free_busy_slots_def
        retrieve_timezone_def)
qed

theorem failed_acquisition_no_upstream_witness:
  "fst (get_gcal_credentials revoked_world (demo_files ''stale'')) =
     Inl (Raised ''invalid_grant: Token has been expired or revoked.'')
   \<and> fst (retrieve_calendar_events revoked_world (demo_files ''stale'') ''primary'') =
       JObj [(''result'', JStr ''An error occurred: invalid_grant: Token has been expired or revoked.''),
             (''events'', JArr [])]
   \<and> filter contacts_upstream
       (snd (snd (retrieve_calendar_events revoked_world (demo_files ''stale'') ''primary''))) = []"
proof -
  have h: "fst (get_gcal_credentials revoked_world (demo_files ''stale'')) =
             Inl (Raised ''invalid_grant: Token has been expired or revoked.'')"
    by (simp add: get_gcal_credentials_def env_paths_def load_token_def login_def
        revoked_world_def demo_world_def demo_files_def stale_creds_def token_file_def
        secret_file_def)
  show ?thesis
    using h failed_acquisition_no_upstream [OF h, of "''primary''"] by simp
qed

subsection \<open>The calendar requests of a trace\<close>

lemma api_calls_append: "api_calls (t @ u) = api_calls t @ api_calls u"
  by (induction t rule: api_calls.induct) simp_all

lemma api_calls_quiet: "filter contacts_upstream t = [] \<Longrightarrow> api_calls t = []"
  by (induction t rule: api_calls.induct) (simp_all split: if_splits)

lemma get_gcal_credentials_no_api_calls: "api_calls (snd (snd (get_gcal_credentials w fs))) = []"
  by (rule api_calls_quiet) (rule get_gcal_credentials_quiet)

subsection \<open>The calendar id of the upcoming-events tool\<close>

text \<open>
  Claim C10. \<^verbatim>\<open>retrieve_calendar_events\<close> does not use its argument \<^verbatim>\<open>id\<close>: two calls
  that differ only in it return the same dict, leave the same files and perform the same
  effects, and the only Calendar request a call can send is the list request for the
  calendar \<^verbatim>\<open>"primary"\<close>.
\<close>

theorem events_ignore_id:
  "retrieve_calendar_events w fs id_arg = retrieve_calendar_events w fs id_arg'
   \<and> (api_calls (snd (snd (retrieve_calendar_events w fs id_arg))) = []
      \<or> api_calls (snd (snd (retrieve_calendar_events w fs id_arg))) =
          [EventsList \<lparr>calendarId = ''primary'', timeMin = now_isoformat w @ ''Z'',
                       maxResults = 50, singleEvents = True, orderBy = ''startTime''\<rparr>])"
proof -
  obtain r fs' t where g: "get_gcal_credentials w fs = (r, fs', t)"
    by (cases "get_gcal_credentials w fs")
  have q: "api_calls t = []"
    using get_gcal_credentials_no_api_calls [of w fs] g by simp
  show ?thesis
    using g q
    by (simp add: retrieve_calendar_events_def events_request_def api_calls_append Let_def
        split: sum.split option.split)
qed

theorem events_ignore_id_witness:
  "retrieve_calendar_events demo_world (demo_files ''good'') ''ana@example.com'' =
     retrieve_calendar_events demo_world (demo_files ''good'') ''primary''
   \<and> api_calls (snd (snd (retrieve_calendar_events demo_world (demo_files ''good'') ''ana@example.com''))) =
       [EventsList \<lparr>calendarId = ''primary'', timeMin = ''2024-05-01T10:00:00.000000Z'',
                    maxResults = 50, singleEvents = True, orderBy = ''startTime''\<rparr>]"
proof -
  have "api_calls (snd (snd (retrieve_calendar_events demo_world (demo_files ''good'') ''ana@example.com''))) \<noteq> []"
    by (simp add: retrieve_calendar_events_def events_request_def get_gcal_credentials_def
        env_paths_def load_token_def login_def save_token_def demo_world_def demo_files_def
        good_creds_def token_file_def secret_file_def)
  moreover have "now_isoformat demo_world = ''2024-05-01T10:00:00.000000''"
    by (simp add: demo_world_def)
  ultimately show ?thesis
    using events_ignore_id [of demo_world "demo_files ''good''" "''ana@example.com''" "''primary''"]
    by auto
qed

subsection \<open>Where the token is saved\<close>

text \<open>
  Claim C2, evaluated on the code. With \<^verbatim>\<open>GCAL_TOKEN_PATH\<close> set to
  \<^verbatim>\<open>/etc/mcp_gcal/gcal_token.json\<close> and an expired token stored there, the acquisition
  refreshes the credentials and succeeds, and the one file it writes is \<^verbatim>\<open>token.json\<close>,
  relative to the working directory: the file at the configured path still holds the
  expired token.
\<close>

theorem token_written_to_literal_name:
  "get_gcal_credentials demo_world (demo_files ''stale'') =
     (Inr fresh_creds, (demo_files ''stale'')(''token.json'' \<mapsto> ''fresh''),
      [FileExists token_file, FileRead token_file, TokenRefresh, FileWrite ''token.json'' ''fresh''])
   \<and> environ demo_world ''GCAL_TOKEN_PATH'' = Some token_file
   \<and> token_file \<noteq> ''token.json''
   \<and> ((demo_files ''stale'')(''token.json'' \<mapsto> ''fresh'')) token_file = Some ''stale''"
  by (simp add: get_gcal_credentials_def env_paths_def load_token_def login_def save_token_def
      demo_world_def demo_files_def stale_creds_def fresh_creds_def token_file_def secret_file_def)

subsection \<open>A refresh that fails\<close>

text \<open>
  Claim C4 as stated fails: with an expired token, a refresh token and an identity provider
  that rejects the refresh, \<^verbatim>\<open>get_gcal_credentials\<close> raises the refresh error after the
  refresh attempt; no interactive flow runs and nothing is written.
\<close>

theorem refresh_failure_propagates_counterexample:
  "get_gcal_credentials revoked_world (demo_files ''stale'') =
     (Inl (Raised ''invalid_grant: Token has been expired or revoked.''), demo_files ''stale'',
      [FileExists token_file, FileRead token_file, TokenRefresh])"
  by (simp add: get_gcal_credentials_def env_paths_def load_token_def login_def
      revoked_world_def demo_world_def demo_files_def stale_creds_def token_file_def
      secret_file_def)

text \<open>
  Claim C4, amended. When the token file loads credentials that are not valid, are expired
  and carry a non-empty refresh token, a refresh is attempted and the interactive flow is
  not run; if the refresh raises, the exception leaves \<^verbatim>\<open>get_gcal_credentials\<close> as it
  is, after exactly the file check, the file read and the refresh attempt.
\<close>

theorem refresh_attempted_failure_propagates:
  assumes "env_paths w = Inr (token_path, credentials_path)"
    and "fs token_path = Some token_text"
    and "from_authorized_user_info w token_text = Inr c"
    and "\<not> valid c" and "expired c" and "refresh_token c = Some r" and "r \<noteq> []"
  shows "TokenRefresh \<in> set (snd (snd (get_gcal_credentials w fs)))
     \<and> InteractiveFlow \<notin> set (snd (snd (get_gcal_credentials w fs)))
     \<and> (refresh w c = Inl error \<longrightarrow>
          get_gcal_credentials w fs =
            (Inl error, fs, [FileExists token_path, FileRead token_path, TokenRefresh]))"
  using assms
  by (simp add: get_gcal_credentials_def load_token_def login_def save_token_def
      split: sum.split option.split)

theorem refresh_attempted_failure_propagates_witness:
  "env_paths revoked_world = Inr (token_file, secret_file)
   \<and> refresh revoked_world stale_creds = Inl (Raised ''invalid_grant: Token has been expired or revoked.'')
   \<and> TokenRefresh \<in> set (snd (snd (get_gcal_credentials revoked_world (demo_files ''stale''))))
   \<and> InteractiveFlow \<notin> set (snd (snd (get_gcal_credentials revoked_world (demo_files ''stale''))))
   \<and> get_gcal_credentials revoked_world (demo_files ''stale'') =
       (Inl (Raised ''invalid_grant: Token has been expired or revoked.''), demo_files ''stale'',
        [FileExists token_file, FileRead token_file, TokenRefresh])"
proof -
  have h1: "env_paths revoked_world = Inr (token_file, secret_file)"
    by (simp add: env_paths_def revoked_world_def demo_world_def)
  have h2: "demo_files ''stale'' token_file = Some ''stale''"
    by (simp add: demo_files_def token_file_def secret_file_def)
  have h3: "from_authorized_user_info revoked_world ''stale'' = Inr stale_creds"
    by (simp add: revoked_world_def demo_world_def)
  have h4: "\<not> valid stale_creds" and h5: "expired stale_creds"
    and h6: "refresh_token stale_creds = Some ''r-1''" and h7: "''r-1'' \<noteq> []"
    by (simp_all add: stale_creds_def)
  have h8: "refresh revoked_world stale_creds = Inl (Raised ''invalid_grant: Token has been expired or revoked.'')"
    by (simp add: revoked_world_def)
  show ?thesis
    using h1 h2 h3 h4 h5 h6 h7 h8
      refresh_attempted_failure_propagates [where w = revoked_world and fs = "demo_files ''stale''"
        and token_path = token_file and credentials_path = secret_file and token_text = "''stale''"
        and c = stale_creds and r = "''r-1''"
        and error = "Raised ''invalid_grant: Token has been expired or revoked.''"]
    by simp
qed


subsection \<open>The example worlds, evaluated\<close>

lemma demo_acquire_good:
  "get_gcal_credentials demo_world (demo_files ''good'') =
     (Inr good_creds, (demo_files ''good'')(''token.json'' \<mapsto> ''good''),
      [FileExists token_file, FileRead token_file, FileWrite ''token.json'' ''good''])"
  by (simp add: get_gcal_credentials_def env_paths_def load_token_def login_def save_token_def
      demo_world_def demo_files_def good_creds_def token_file_def secret_file_def)

lemma length_twelve_events: "length twelve_events = 12"
  by (simp add: twelve_events_def)

lemma demo_events_result:
  "fst (retrieve_calendar_events demo_world (demo_files ''good'') ''primary'') =
     JObj [(''result'', JStr ''success''), (''events'', JArr twelve_events)]"
proof -
  have "take 50 twelve_events = twelve_events"
    by (simp add: length_twelve_events)
  then have "execute demo_world good_creds (events_request demo_world) =
          Inr (JObj [(''items'', JArr twelve_events)])"
    by (simp add: demo_world_def events_request_def)
  moreover have "build demo_world good_creds = None"
    by (simp add: demo_world_def)
  ultimately show ?thesis
    by (simp add: retrieve_calendar_events_def demo_acquire_good)
qed

lemma unset_env:
  "env_paths unset_world =
     Inl (KeyError (''Can't find enviroment variable '' @ py_repr ''GCAL_CREDENTIALS_PATH''))"
  by (simp add: env_paths_def unset_world_def demo_world_def)

lemma unset_acquire:
  "get_gcal_credentials unset_world fs =
     (Inl (KeyError (''Can't find enviroment variable '' @ py_repr ''GCAL_CREDENTIALS_PATH'')),
      fs, [])"
  by (simp add: get_gcal_credentials_def unset_env)

subsection \<open>How many events are listed\<close>

text \<open>
  Claim C5 as stated fails: on a calendar with twelve upcoming instances the tool returns all
  twelve.
\<close>

theorem events_not_capped_at_ten_counterexample:
  "fst (retrieve_calendar_events demo_world (demo_files ''good'') ''primary'') =
     JObj [(''result'', JStr ''success''), (''events'', JArr twelve_events)]
   \<and> length twelve_events = 12"
  by (simp add: demo_events_result length_twelve_events)

text \<open>
  Claim C5, amended. Once the credential is acquired and the client built, the tool sends
  one list request, for the calendar \<^verbatim>\<open>"primary"\<close> with \<^verbatim>\<open>maxResults=50\<close>,
  \<^verbatim>\<open>singleEvents=True\<close> and \<^verbatim>\<open>orderBy="startTime"\<close>. It returns the \<^verbatim>\<open>items\<close> of the
  answer as they are, without cutting the list: at most 50 events when the upstream returns
  no more than \<^verbatim>\<open>maxResults\<close> items. Nothing is said of the lower time bound of the
  request.
\<close>

theorem events_request_and_result:
  assumes "get_gcal_credentials w fs = (Inr creds, fs', t)"
    and "build w creds = None"
    and "execute w creds (events_request w) = Inr (JObj kvs)"
    and "map_of kvs ''items'' = Some (JArr items)"
    and "\<And>a kvs' xs. execute w creds (EventsList a) = Inr (JObj kvs') \<Longrightarrow>
           map_of kvs' ''items'' = Some (JArr xs) \<Longrightarrow> length xs \<le> maxResults a"
  shows "\<exists>a. events_request w = EventsList a
           \<and> calendarId a = ''primary'' \<and> maxResults a = 50 \<and> singleEvents a
           \<and> orderBy a = ''startTime''
           \<and> retrieve_calendar_events w fs id_arg =
               (JObj [(''result'', JStr ''success''), (''events'', JArr items)], fs',
                t @ [ServiceBuild, Print ''Getting the upcoming 10 events'',
                     ApiCall (EventsList a)])
           \<and> length items \<le> 50"
proof -
  obtain a where a: "events_request w = EventsList a" and c: "calendarId a = ''primary''"
    and m: "maxResults a = 50" and s: "singleEvents a" and b: "orderBy a = ''startTime''"
    by (simp add: events_request_def)
  have "length items \<le> maxResults a"
    using assms(5) [of a kvs items] assms(3) assms(4) a by simp
  then have l: "length items \<le> 50"
    using m by simp
  have "retrieve_calendar_events w fs id_arg =
      (JObj [(''result'', JStr ''success''), (''events'', JArr items)], fs',
       t @ [ServiceBuild, Print ''Getting the upcoming 10 events'', ApiCall (EventsList a)])"
    using assms(1-4) a by (simp add: retrieve_calendar_events_def)
  then show ?thesis
    using a c m s b l by blast
qed

theorem events_request_and_result_witness:
  "(\<exists>a. calendarId a = ''primary'' \<and> maxResults a = 50 \<and> singleEvents a
        \<and> orderBy a = ''startTime''
        \<and> retrieve_calendar_events demo_world (demo_files ''good'') ''primary'' =
            (JObj [(''result'', JStr ''success''), (''events'', JArr twelve_events)],
             (demo_files ''good'')(''token.json'' \<mapsto> ''good''),
             [FileExists token_file, FileRead token_file, FileWrite ''token.json'' ''good'',
              ServiceBuild, Print ''Getting the upcoming 10 events'', ApiCall (EventsList a)]))
   \<and> length twelve_events \<le> 50"
proof -
  have b: "build demo_world good_creds = None"
    by (simp add: demo_world_def)
  have "take 50 twelve_events = twelve_events"
    by (simp add: length_twelve_events)
  then have e: "execute demo_world good_creds (events_request demo_world) =
         Inr (JObj [(''items'', JArr twelve_events)])"
    by (simp add: demo_world_def events_request_def)
  have m: "map_of [(''items'', JArr twelve_events)] ''items'' = Some (JArr twelve_events)"
    by simp
  have "\<exists>a. events_request demo_world = EventsList a
           \<and> calendarId a = ''primary'' \<and> maxResults a = 50 \<and> singleEvents a
           \<and> orderBy a = ''startTime''
           \<and> retrieve_calendar_events demo_world (demo_files ''good'') ''primary'' =
               (JObj [(''result'', JStr ''success''), (''events'', JArr twelve_events)],
                (demo_files ''good'')(''token.json'' \<mapsto> ''good''),
                [FileExists token_file, FileRead token_file, FileWrite ''token.json'' ''good'']
                @ [ServiceBuild, Print ''Getting the upcoming 10 events'',
                   ApiCall (EventsList a)])
           \<and> length twelve_events \<le> 50"
  proof (rule events_request_and_result [OF demo_acquire_good b e m])
    fix a kvs' xs
    assume "execute demo_world good_creds (EventsList a) = Inr (JObj kvs')"
      and "map_of kvs' ''items'' = Some (JArr xs)"
    then show "length xs \<le> maxResults a"
      by (auto simp: demo_world_def)
  qed
  then show ?thesis
    by auto
qed

subsection \<open>The time window of a free/busy query\<close>

text \<open>
  Claim C9 as stated fails: a query whose \<^verbatim>\<open>time_min\<close> is a day after its \<^verbatim>\<open>time_max\<close>
  acquires the credential, builds the client, sends the request and returns the answer.
\<close>

theorem freebusy_window_unchecked_counterexample:
  "retrieve_calendar_free_busy_slots demo_world (demo_files ''good'')
     ''2024-05-02T00:00:00Z'' ''2024-05-01T00:00:00Z'' ''UTC'' [''primary''] =
     (JObj [(''result'', JStr ''success''), (''response'', JObj [(''calendars'', JObj [])])],
      (demo_files ''good'')(''token.json'' \<mapsto> ''good''),
      [FileExists token_file, FileRead token_file, FileWrite ''token.json'' ''good'',
       ServiceBuild,
       ApiCall (FreebusyQuery
         (JObj [(''timeMin'', JStr ''2024-05-02T00:00:00Z''),
                (''timeMax'', JStr ''2024-05-01T00:00:00Z''),
                (''timeZone'', JStr ''UTC''), (''groupExpansionMax'', JInt 2),
                (''calendarExpansionMax'', JInt 2),
                (''items'', JArr [JObj [(''id'', JStr ''primary'')]])]))])"
proof -
  have "build demo_world good_creds = None"
    by (simp add: demo_world_def)
  moreover have "execute demo_world good_creds (FreebusyQuery q) =
      Inr (JObj [(''calendars'', JObj [])])" for q
    by (simp add: demo_world_def)
  ultimately show ?thesis
    by (simp add: retrieve_calendar_free_busy_slots_def freebusy_request_def demo_acquire_good)
qed

text \<open>
  Claim C9, amended. The tool does not compare \<^verbatim>\<open>time_min\<close> with \<^verbatim>\<open>time_max\<close>: for all
  values of both, once the credential is acquired and the client built it sends one
  free/busy request that carries them unchanged, and returns the answer, or the error dict
  of the exception the request raised.
\<close>

theorem freebusy_window_sent_verbatim:
  assumes "get_gcal_credentials w fs = (Inr creds, fs', t)"
    and "build w creds = None"
  shows "snd (snd (retrieve_calendar_free_busy_slots w fs time_min time_max timezone ids)) =
           t @ [ServiceBuild,
                ApiCall (FreebusyQuery
                  (JObj [(''timeMin'', JStr time_min), (''timeMax'', JStr time_max),
                         (''timeZone'', JStr timezone), (''groupExpansionMax'', JInt 2),
                         (''calendarExpansionMax'', JInt 2),
                         (''items'', JArr (map (\<lambda>x. JObj [(''id'', JStr x)]) ids))]))]
       \<and> fst (retrieve_calendar_free_busy_slots w fs time_min time_max timezone ids) =
           (case execute w creds (FreebusyQuery
                  (JObj [(''timeMin'', JStr time_min), (''timeMax'', JStr time_max),
                         (''timeZone'', JStr timezone), (''groupExpansionMax'', JInt 2),
                         (''calendarExpansionMax'', JInt 2),
                         (''items'', JArr (map (\<lambda>x. JObj [(''id'', JStr x)]) ids))])) of
              Inl error \<Rightarrow>
                JObj [(''result'', JStr (''An error occurred: '' @ str_exn error)),
                      (''response'', JObj [])]
            | Inr response \<Rightarrow> JObj [(''result'', JStr ''success''), (''response'', response)])"
  using assms
  by (simp add: retrieve_calendar_free_busy_slots_def freebusy_request_def Let_def
      split: sum.split)

theorem freebusy_window_sent_verbatim_witness:
  "snd (snd (retrieve_calendar_free_busy_slots demo_world (demo_files ''good'')
       ''2024-05-01T09:00:00Z'' ''2024-05-01T09:00:00Z'' ''UTC'' [''primary''])) =
     [FileExists token_file, FileRead token_file, FileWrite ''token.json'' ''good'',
      ServiceBuild,
      ApiCall (FreebusyQuery
        (JObj [(''timeMin'', JStr ''2024-05-01T09:00:00Z''),
               (''timeMax'', JStr ''2024-05-01T09:00:00Z''),
               (''timeZone'', JStr ''UTC''), (''groupExpansionMax'', JInt 2),
               (''calendarExpansionMax'', JInt 2),
               (''items'', JArr [JObj [(''id'', JStr ''primary'')]])]))]
   \<and> fst (retrieve_calendar_free_busy_slots demo_world (demo_files ''good'')
       ''2024-05-01T09:00:00Z'' ''2024-05-01T09:00:00Z'' ''UTC'' [''primary'']) =
     JObj [(''result'', JStr ''success''), (''response'', JObj [(''calendars'', JObj [])])]"
proof -
  have b: "build demo_world good_creds = None"
    by (simp add: demo_world_def)
  have e: "execute demo_world good_creds (FreebusyQuery q) =
      Inr (JObj [(''calendars'', JObj [])])" for q
    by (simp add: demo_world_def)
  show ?thesis
    using freebusy_window_sent_verbatim [OF demo_acquire_good b,
        of "''2024-05-01T09:00:00Z''" "''2024-05-01T09:00:00Z''" "''UTC''" "[''primary'']"]
    by (simp add: e)
qed

subsection \<open>The two states of a result\<close>

lemma demo_lookup: "fst (lookup_registry_email demo_world ''Ana'') = JStr ''ana@example.com''"
  by (simp add: lookup_registry_email_def lookup_body_def demo_world_def two_records_def)

lemma failing_lookup:
  "fst (lookup_registry_email failing_directory ''Ana'') = JStr ''Error: API returned status code 500''"
  by (simp add: lookup_registry_email_def lookup_body_def failing_directory_def str_int_def)

lemma odd_lookup:
  "fst (lookup_registry_email odd_directory ''Ana'') = JStr ''Error: API returned status code 500''"
  by (simp add: lookup_registry_email_def lookup_body_def odd_directory_def)

text \<open>
  Claim C1 as stated fails for the directory lookup: it returns a bare string, which is in
  neither state, and a record whose email field holds the text of a failure gives the very
  value that a status 500 gives.
\<close>

theorem lookup_returns_bare_string_counterexample:
  "fst (lookup_registry_email demo_world ''Ana'') = JStr ''ana@example.com''
   \<and> envelope_state (fst (lookup_registry_email demo_world ''Ana'')) = None
   \<and> envelope_state (fst (lookup_registry_email failing_directory ''Ana'')) = None
   \<and> fst (lookup_registry_email odd_directory ''Ana'') =
       fst (lookup_registry_email failing_directory ''Ana'')"
  by (simp add: demo_lookup failing_lookup odd_lookup envelope_state_def)

lemma events_two_states:
  "(\<exists>creds fs' t answer events.
       get_gcal_credentials w fs = (Inr creds, fs', t) \<and> build w creds = None
     \<and> execute w creds (events_request w) = Inr answer
     \<and> py_get answer ''items'' (JArr []) = Inr events
     \<and> fst (retrieve_calendar_events w fs id_arg) =
         JObj [(''result'', JStr ''success''), (''events'', events)]
     \<and> envelope_state (fst (retrieve_calendar_events w fs id_arg)) =
         Some (SuccessState ''events'' events))
   \<or> (\<exists>error.
       fst (retrieve_calendar_events w fs id_arg) =
         JObj [(''result'', JStr (''An error occurred: '' @ str_exn error)), (''events'', JArr [])]
     \<and> envelope_state (fst (retrieve_calendar_events w fs id_arg)) =
         Some (ErrorState ''events'' (''An error occurred: '' @ str_exn error)))"
  by (auto simp: retrieve_calendar_events_def envelope_state_def Let_def
      split: prod.splits sum.splits option.splits)

lemma freebusy_two_states:
  "(\<exists>creds fs' t answer.
       get_gcal_credentials w fs = (Inr creds, fs', t) \<and> build w creds = None
     \<and> execute w creds (freebusy_request time_min time_max timezone ids) = Inr answer
     \<and> fst (retrieve_calendar_free_busy_slots w fs time_min time_max timezone ids) =
         JObj [(''result'', JStr ''success''), (''response'', answer)]
     \<and> envelope_state (fst (retrieve_calendar_free_busy_slots w fs time_min time_max timezone ids)) =
         Some (SuccessState ''response'' answer))
   \<or> (\<exists>error.
       fst (retrieve_calendar_free_busy_slots w fs time_min time_max timezone ids) =
         JObj [(''result'', JStr (''An error occurred: '' @ str_exn error)), (''response'', JObj [])]
     \<and> envelope_state (fst (retrieve_calendar_free_busy_slots w fs time_min time_max timezone ids)) =
         Some (ErrorState ''response'' (''An error occurred: '' @ str_exn error)))"
  by (auto simp: retrieve_calendar_free_busy_slots_def envelope_state_def Let_def
      split: prod.splits sum.splits option.splits)

lemma timezone_two_states:
  "(\<exists>creds fs' t answer.
       get_gcal_credentials w fs = (Inr creds, fs', t) \<and> build w creds = None
     \<and> execute w creds (CalendarsGet calendar_id) = Inr answer
     \<and> fst (retrieve_timezone w fs calendar_id) =
         JObj [(''result'', JStr ''success''), (''response'', answer)]
     \<and> envelope_state (fst (retrieve_timezone w fs calendar_id)) =
         Some (SuccessState ''response'' answer))
   \<or> (\<exists>error.
       fst (retrieve_timezone w fs calendar_id) =
         JObj [(''result'', JStr (''An error occurred: '' @ str_exn error)), (''response'', JObj [])]
     \<and> envelope_state (fst (retrieve_timezone w fs calendar_id)) =
         Some (ErrorState ''response'' (''An error occurred: '' @ str_exn error)))"
  by (auto simp: retrieve_timezone_def envelope_state_def Let_def
      split: prod.splits sum.splits option.splits)

lemma py_get_email_cases:
  "py_get x ''email'' (JStr ''Email not found in response'') = Inr v \<Longrightarrow>
     (\<exists>t. v = JStr t) \<or> (\<exists>first_record. x = JObj first_record \<and> map_of first_record ''email'' = Some v)"
  by (cases x) (auto split: option.splits)

lemma py_first_cases:
  "py_first data = Inr x \<Longrightarrow>
     (\<exists>t. x = JStr t) \<or> (\<exists>others. data = JArr (x # others))"
  by (induction data rule: py_first.induct) auto

lemma lookup_body_cases:
  assumes "lookup_body name resp = Inr v"
  shows "(\<exists>t. v = JStr t)
       \<or> (\<exists>first_record others.
            status_code resp = 200
          \<and> response_json resp = Inr (JArr (JObj first_record # others))
          \<and> map_of first_record ''email'' = Some v)"
proof (cases "\<exists>t. v = JStr t")
  case True
  then show ?thesis by simp
next
  case False
  then obtain data x where s: "status_code resp = 200" and d: "response_json resp = Inr data"
    and f: "py_first data = Inr x"
    and g: "py_get x ''email'' (JStr ''Email not found in response'') = Inr v"
    using assms by (auto simp: lookup_body_def split: if_splits sum.splits)
  obtain first_record where x: "x = JObj first_record"
    and m: "map_of first_record ''email'' = Some v"
    using py_get_email_cases [OF g] False by auto
  obtain others where "data = JArr (x # others)"
    using py_first_cases [OF f] x by auto
  then show ?thesis
    using s d x m by simp
qed

lemma lookup_value:
  "(\<exists>t. fst (lookup_registry_email w name) = JStr t)
   \<or> (\<exists>resp first_record others.
        requests_get w (''https://registry.sqprod.co/api/v2/users/search?query='' @ quote name)
          [(''accept'', ''application/json'')] = Inr resp
      \<and> status_code resp = 200
      \<and> response_json resp = Inr (JArr (JObj first_record # others))
      \<and> map_of first_record ''email'' = Some (fst (lookup_registry_email w name)))"
proof (cases "requests_get w (''https://registry.sqprod.co/api/v2/users/search?query='' @ quote name)
          [(''accept'', ''application/json'')]")
  case (Inl e)
  then show ?thesis by (simp add: lookup_registry_email_def)
next
  case (Inr resp)
  show ?thesis
  proof (cases "lookup_body name resp")
    case (Inl e)
    then show ?thesis using Inr by (simp add: lookup_registry_email_def)
  next
    case r: (Inr v)
    have "fst (lookup_registry_email w name) = v"
      using Inr r by (simp add: lookup_registry_email_def)
    then show ?thesis
      using lookup_body_cases [OF r] Inr by auto
  qed
qed

lemma unset_timezone_result:
  "fst (retrieve_timezone unset_world (demo_files ''good'') ''primary'') =
     JObj [(''result'', JStr (''An error occurred: ''
              @ str_exn (KeyError (''Can't find enviroment variable '' @ py_repr ''GCAL_CREDENTIALS_PATH'')))),
           (''response'', JObj [])]"
  by (simp add: retrieve_timezone_def unset_acquire)

text \<open>
  Claim C1, amended. Each of the three tools that need a credential returns a dict of two
  keys, \<^verbatim>\<open>result\<close> and its payload key (\<^verbatim>\<open>events\<close> for the upcoming events,
  \<^verbatim>\<open>response\<close> for the other two), that is in exactly one of the two states. Success:
  \<^verbatim>\<open>result\<close> is \<^verbatim>\<open>"success"\<close> and the payload is what the Calendar API answered to
  this call's request, made with the acquired credential: the answer's \<^verbatim>\<open>items\<close>
  (\<^verbatim>\<open>[]\<close> when it has none) for the upcoming events, the answer itself for the other
  two. Error: \<^verbatim>\<open>result\<close> is the diagnostic \<^verbatim>\<open>An error occurred:\<close> followed by the text
  of an exception, and the payload is \<^verbatim>\<open>[]\<close> for \<^verbatim>\<open>events\<close> and \<^verbatim>\<open>{}\<close> for
  \<^verbatim>\<open>response\<close>. The directory lookup has no such dict of its own: what it returns is a
  string, or else the \<^verbatim>\<open>email\<close> value of the first record of the answer, unchanged.
\<close>

theorem credential_tools_two_states:
  "((\<exists>creds fs' t answer events.
       get_gcal_credentials w fs = (Inr creds, fs', t) \<and> build w creds = None
     \<and> execute w creds (events_request w) = Inr answer
     \<and> py_get answer ''items'' (JArr []) = Inr events
     \<and> fst (retrieve_calendar_events w fs id_arg) =
         JObj [(''result'', JStr ''success''), (''events'', events)]
     \<and> envelope_state (fst (retrieve_calendar_events w fs id_arg)) =
         Some (SuccessState ''events'' events))
   \<or> (\<exists>error.
       fst (retrieve_calendar_events w fs id_arg) =
         JObj [(''result'', JStr (''An error occurred: '' @ str_exn error)), (''events'', JArr [])]
     \<and> envelope_state (fst (retrieve_calendar_events w fs id_arg)) =
         Some (ErrorState ''events'' (''An error occurred: '' @ str_exn error))))
  \<and> ((\<exists>creds fs' t answer.
       get_gcal_credentials w fs = (Inr creds, fs', t) \<and> build w creds = None
     \<and> execute w creds (freebusy_request time_min time_max timezone ids) = Inr answer
     \<and> fst (retrieve_calendar_free_busy_slots w fs time_min time_max timezone ids) =
         JObj [(''result'', JStr ''success''), (''response'', answer)]
     \<and> envelope_state (fst (retrieve_calendar_free_busy_slots w fs time_min time_max timezone ids)) =
         Some (SuccessState ''response'' answer))
   \<or> (\<exists>error.
       fst (retrieve_calendar_free_busy_slots w fs time_min time_max timezone ids) =
         JObj [(''result'', JStr (''An error occurred: '' @ str_exn error)), (''response'', JObj [])]
     \<and> envelope_state (fst (retrieve_calendar_free_busy_slots w fs time_min time_max timezone ids)) =
         Some (ErrorState ''response'' (''An error occurred: '' @ str_exn error))))
  \<and> ((\<exists>creds fs' t answer.
       get_gcal_credentials w fs = (Inr creds, fs', t) \<and> build w creds = None
     \<and> execute w creds (CalendarsGet calendar_id) = Inr answer
     \<and> fst (retrieve_timezone w fs calendar_id) =
         JObj [(''result'', JStr ''success''), (''response'', answer)]
     \<and> envelope_state (fst (retrieve_timezone w fs calendar_id)) =
         Some (SuccessState ''response'' answer))
   \<or> (\<exists>error.
       fst (retrieve_timezone w fs calendar_id) =
         JObj [(''result'', JStr (''An error occurred: '' @ str_exn error)), (''response'', JObj [])]
     \<and> envelope_state (fst (retrieve_timezone w fs calendar_id)) =
         Some (ErrorState ''response'' (''An error occurred: '' @ str_exn error))))
  \<and> ((\<exists>t. fst (lookup_registry_email w name) = JStr t)
   \<or> (\<exists>resp first_record others.
        requests_get w (''https://registry.sqprod.co/api/v2/users/search?query='' @ quote name)
          [(''accept'', ''application/json'')] = Inr resp
      \<and> status_code resp = 200
      \<and> response_json resp = Inr (JArr (JObj first_record # others))
      \<and> map_of first_record ''email'' = Some (fst (lookup_registry_email w name))))"
  using events_two_states [of w fs id_arg] freebusy_two_states [of w fs time_min time_max timezone ids]
    timezone_two_states [of w fs calendar_id] lookup_value [of w name]
  by (intro conjI)

theorem credential_tools_two_states_witness:
  "envelope_state (fst (retrieve_calendar_events demo_world (demo_files ''good'') ''primary'')) =
     Some (SuccessState ''events'' (JArr twelve_events))
   \<and> (\<exists>error. envelope_state (fst (retrieve_timezone unset_world (demo_files ''good'') ''primary'')) =
     Some (ErrorState ''response'' (''An error occurred: '' @ str_exn error)))
   \<and> fst (lookup_registry_email demo_world ''Ana'') = JStr ''ana@example.com''"
proof -
  have a: "fst (retrieve_calendar_events demo_world (demo_files ''good'') ''primary'') =
      JObj [(''result'', JStr ''success''), (''events'', JArr twelve_events)]"
    by (rule demo_events_result)
  have b: "fst (retrieve_timezone unset_world (demo_files ''good'') ''primary'') \<noteq>
      JObj [(''result'', JStr ''success''), (''response'', answer)]" for answer
    by (simp add: unset_timezone_result)
  note demo =
    credential_tools_two_states [where w = demo_world and fs = "demo_files ''good''"
      and id_arg = "''primary''" and time_min = "''2024-05-01T09:00:00Z''" and time_max = "''2024-05-01T10:00:00Z''"
      and timezone = "''UTC''" and ids = "[]" and calendar_id = "''primary''"
      and name = "''Ana''"]
  note unset =
    credential_tools_two_states [where w = unset_world and fs = "demo_files ''good''"
      and id_arg = "''primary''" and time_min = "''2024-05-01T09:00:00Z''" and time_max = "''2024-05-01T10:00:00Z''"
      and timezone = "''UTC''" and ids = "[]" and calendar_id = "''primary''"
      and name = "''Ana''"]
  have c: "envelope_state (fst (retrieve_calendar_events demo_world (demo_files ''good'') ''primary'')) =
      Some (SuccessState ''events'' (JArr twelve_events))"
    using demo [THEN conjunct1] a by auto
  have d: "\<exists>error. envelope_state (fst (retrieve_timezone unset_world (demo_files ''good'') ''primary'')) =
      Some (ErrorState ''response'' (''An error occurred: '' @ str_exn error))"
    using unset [THEN conjunct2, THEN conjunct2, THEN conjunct1] b by blast
  show ?thesis
    using c d demo_lookup by simp
qed

subsection \<open>The directory lookup\<close>

text \<open>
  Claim C6. When the directory service answers: with status 200 and a non-empty list whose
  first element is a record, the tool returns that record's \<^verbatim>\<open>email\<close> field as it is, or
  the text \<^verbatim>\<open>Email not found in response\<close> when the record has none; with status 200 and
  an empty list it returns the not-found text, which is not one of the failure texts; with
  any other status it returns the failure text that ends with the status code.
\<close>

theorem lookup_registry_email_outcomes:
  assumes "requests_get w (''https://registry.sqprod.co/api/v2/users/search?query='' @ quote name)
             [(''accept'', ''application/json'')] = Inr resp"
  shows "(status_code resp = 200 \<and> response_json resp = Inr (JArr (JObj first_record # others)) \<longrightarrow>
            fst (lookup_registry_email w name) =
              (case map_of first_record ''email'' of
                 Some email \<Rightarrow> email
               | None \<Rightarrow> JStr ''Email not found in response''))
       \<and> (status_code resp = 200 \<and> response_json resp = Inr (JArr []) \<longrightarrow>
            fst (lookup_registry_email w name) =
              JStr (''No results found for '' @ [CHR 0x27] @ name @ [CHR 0x27])
            \<and> \<not> is_error_outcome (fst (lookup_registry_email w name)))
       \<and> (status_code resp \<noteq> 200 \<longrightarrow>
            fst (lookup_registry_email w name) =
              JStr (''Error: API returned status code '' @ str_int (status_code resp))
            \<and> is_error_outcome (fst (lookup_registry_email w name)))"
  using assms
  by (simp add: lookup_registry_email_def lookup_body_def is_error_outcome_def)


theorem lookup_registry_email_outcomes_witness:
  "fst (lookup_registry_email demo_world ''Ana'') = JStr ''ana@example.com''
   \<and> fst (lookup_registry_email empty_directory ''Ana'') =
       JStr (''No results found for '' @ [CHR 0x27] @ ''Ana'' @ [CHR 0x27])
   \<and> \<not> is_error_outcome (fst (lookup_registry_email empty_directory ''Ana''))
   \<and> fst (lookup_registry_email failing_directory ''Ana'') =
       JStr ''Error: API returned status code 500''
   \<and> is_error_outcome (fst (lookup_registry_email failing_directory ''Ana''))"
proof -
  let ?u = "''https://registry.sqprod.co/api/v2/users/search?query='' @ quote ''Ana''"
  let ?h = "[(''accept'', ''application/json'')]"
  have a: "requests_get demo_world ?u ?h = Inr \<lparr>status_code = 200, response_json = Inr two_records\<rparr>"
    by (simp add: demo_world_def)
  have b: "requests_get empty_directory ?u ?h =
             Inr \<lparr>status_code = 200, response_json = Inr (JArr [])\<rparr>"
    by (simp add: empty_directory_def)
  have c: "requests_get failing_directory ?u ?h =
             Inr \<lparr>status_code = 500, response_json = Inl (Raised ''Expecting value'')\<rparr>"
    by (simp add: failing_directory_def)
  have d: "str_int 500 = ''500''"
    by (simp add: str_int_def)
  show ?thesis
    using lookup_registry_email_outcomes [OF a,
        where first_record = "[(''name'', JStr ''Ana Diaz''), (''email'', JStr ''ana@example.com'')]"
          and others = "[JObj [(''name'', JStr ''Ana Ruiz''), (''email'', JStr ''aruiz@example.com'')]]"]
      lookup_registry_email_outcomes [OF b] lookup_registry_email_outcomes [OF c] d
    by (simp add: two_records_def is_error_outcome_def)
qed

subsection \<open>The time-zone difference\<close>

lemma scale2_minus: "scale2 (- x) e = - scale2 x e"
  by (simp add: scale2_def)

lemma binary64_minus: "binary64 (- x) = - binary64 x"
  by (simp add: binary64_def Let_def)

lemma binary64_zero: "binary64 0 = 0"
  by (simp add: binary64_def)

text \<open>
  Claim C7. For two zone keys that the time-zone database knows, in the same world (so at
  the same instant), the \<^verbatim>\<open>delta\<close> of the tool for \<open>(tz1, tz2)\<close> is the negation of its
  \<^verbatim>\<open>delta\<close> for \<open>(tz2, tz1)\<close>, and the \<^verbatim>\<open>delta\<close> of a zone with itself is 0.
\<close>

theorem timezone_difference_antisymmetric:
  assumes "utcoffset w tz1 = Inr offset1" and "utcoffset w tz2 = Inr offset2"
  shows "\<exists>d. field ''delta'' (get_timezone_difference w tz1 tz2) = Some (JFloat d)
           \<and> field ''delta'' (get_timezone_difference w tz2 tz1) = Some (JFloat (- d))
           \<and> field ''delta'' (get_timezone_difference w tz1 tz1) = Some (JFloat 0)
           \<and> field ''delta'' (get_timezone_difference w tz2 tz2) = Some (JFloat 0)"
proof -
  have "rat_of_int (offset1 - offset2) = - rat_of_int (offset2 - offset1)"
    by simp
  then have "binary64 (binary64 (of_int (offset1 - offset2)) / 3600) =
      - binary64 (binary64 (of_int (offset2 - offset1)) / 3600)"
    by (simp only: binary64_minus minus_divide_left [symmetric])
  then show ?thesis
    using assms by (simp add: get_timezone_difference_def field_def binary64_zero)
qed

lemma binary64_demo: "binary64 (binary64 (of_int (- 14400 - 19800)) / 3600) = - (19 / 2)"
  by code_simp

theorem timezone_difference_antisymmetric_witness:
  "utcoffset demo_world ''Asia/Kolkata'' = Inr 19800
   \<and> utcoffset demo_world ''America/New_York'' = Inr (- 14400)
   \<and> field ''delta'' (get_timezone_difference demo_world ''Asia/Kolkata'' ''America/New_York'') =
       Some (JFloat (- (19 / 2)))
   \<and> field ''delta'' (get_timezone_difference demo_world ''America/New_York'' ''Asia/Kolkata'') =
       Some (JFloat (19 / 2))
   \<and> field ''delta'' (get_timezone_difference demo_world ''Asia/Kolkata'' ''Asia/Kolkata'') =
       Some (JFloat 0)"
proof -
  have a: "utcoffset demo_world ''Asia/Kolkata'' = Inr 19800"
    by (simp add: demo_world_def)
  have b: "utcoffset demo_world ''America/New_York'' = Inr (- 14400)"
    by (simp add: demo_world_def)
  have c: "field ''delta'' (get_timezone_difference demo_world ''Asia/Kolkata'' ''America/New_York'') =
       Some (JFloat (- (19 / 2)))"
    using binary64_demo by (simp add: get_timezone_difference_def a b field_def)
  show ?thesis
    using a b c timezone_difference_antisymmetric [OF a b] by auto
qed


end
